theory Spec2Isabelle
  imports Complex_Main
begin

section \<open>Strings\<close>

text \<open>
  A Python \<open>str\<close> is a sequence of Unicode code points: \<open>len\<close>, slicing and comparison
  work on code points. It is modelled as a list of code points; \<open>asc\<close> writes an ASCII
  literal. The localized (Chinese) texts of the source are given by their code points.
\<close>

type_synonym pystr = "nat list"

definition asc :: "string \<Rightarrow> pystr" where
  "asc s = map of_char s"

section \<open>Translation tables of \<open>utils/weather.py\<close>\<close>

text \<open>The module-level dictionaries, as association lists looked up with \<open>map_of\<close>.\<close>

definition MODIFIERS :: "(pystr \<times> pystr) list" where
  "MODIFIERS =
    [(asc ''-'', [0x8F7B, 0x5FAE]),
     (asc '''', []),
     (asc ''+'', [0x5F3A]),
     (asc ''VC'', [0x9644, 0x8FD1]),
     (asc ''MI'', [0x6D45]),
     (asc ''BC'', [0x6563, 0x7247]),
     (asc ''PR'', [0x90E8, 0x5206]),
     (asc ''DR'', [0x4F4E, 0x5439]),
     (asc ''BL'', [0x9AD8, 0x5439]),
     (asc ''SH'', [0x9635, 0x6027]),
     (asc ''TS'', [0x96F7, 0x66B4]),
     (asc ''FZ'', [0x51BB])]"

definition WEATHER_PHENOMENA :: "(pystr \<times> pystr) list" where
  "WEATHER_PHENOMENA =
    [(asc ''DZ'', [0x6BDB, 0x6BDB, 0x96E8]),
     (asc ''RA'', [0x96E8]),
     (asc ''SN'', [0x96EA]),
     (asc ''SG'', [0x7C73, 0x96EA]),
     (asc ''IC'', [0x51B0, 0x9488]),
     (asc ''PE'', [0x51B0, 0x7C92]),
     (asc ''GR'', [0x51B0, 0x96F9]),
     (asc ''GS'', [0x5C0F, 0x51B0, 0x7C92]),
     (asc ''BR'', [0x8F7B, 0x96FE]),
     (asc ''FG'', [0x96FE]),
     (asc ''FU'', [0x70DF]),
     (asc ''VA'', [0x706B, 0x5C71, 0x7070]),
     (asc ''DU'', [0x6D6E, 0x5C18]),
     (asc ''SA'', [0x6C99]),
     (asc ''HZ'', [0x973E]),
     (asc ''PO'', [0x5C18, 0x5377, 0x98CE]),
     (asc ''FC'', [0x6F0F, 0x6597, 0x4E91]),
     (asc ''DS'', [0x5C18, 0x66B4]),
     (asc ''SQ'', [0x98D1]),
     (asc ''SS'', [0x6C99, 0x66B4])]"

section \<open>\<open>parse_weather\<close>\<close>

text \<open>
  \<open>re.match(r"^(VC|MI|BC|PR|DR|BL|SH|TS|FZ|\+|-)?(.*)$", wx_string)\<close>.
  The dot does not match a line feed and \<open>$\<close> matches at the end of the string or just
  before a line feed that ends it, so the pattern matches exactly when the string has no
  line feed or its first line feed is its last character. Group 1 is the first alternative
  that is a prefix of the string (none of them holds a line feed), or absent; group 2 runs
  from there to the first line feed. The result is \<open>(group(1) or "", group(2))\<close>.
\<close>

definition modifier_alternatives :: "pystr list" where
  "modifier_alternatives =
    [asc ''VC'', asc ''MI'', asc ''BC'', asc ''PR'', asc ''DR'', asc ''BL'',
     asc ''SH'', asc ''TS'', asc ''FZ'', asc ''+'', asc ''-'']"

definition modifiers_match :: "pystr \<Rightarrow> (pystr \<times> pystr) option" where
  "modifiers_match wx_string =
    (let line = takeWhile (\<lambda>c. c \<noteq> 10) wx_string;
         after = dropWhile (\<lambda>c. c \<noteq> 10) wx_string
     in if after = [] \<or> after = [10] then
          (case find (\<lambda>p. take (length p) wx_string = p) modifier_alternatives of
             Some p \<Rightarrow> Some (p, drop (length p) line)
           | None \<Rightarrow> Some ([], line))
        else None)"

text \<open>\<open>key in table\<close> for a dictionary with string keys.\<close>

definition has_key :: "(pystr \<times> 'v) list \<Rightarrow> pystr \<Rightarrow> bool" where
  "has_key table k = (case map_of table k of Some v \<Rightarrow> True | None \<Rightarrow> False)"

text \<open>
  The \<open>for desc_len in [2, 3]\<close> scan of the loop body: it looks for a descriptor followed
  by a phenomenon and leaves the scan when it finds one. It assigns nothing.
\<close>

definition descriptor_at :: "nat \<Rightarrow> pystr \<Rightarrow> bool" where
  "descriptor_at desc_len remaining =
    (length remaining \<ge> desc_len + 2 \<and>
     has_key MODIFIERS (take desc_len remaining) \<and>
     has_key WEATHER_PHENOMENA (take 2 (drop desc_len remaining)))"

definition descriptor_scan :: "pystr \<Rightarrow> bool" where
  "descriptor_scan remaining = (descriptor_at 2 remaining \<or> descriptor_at 3 remaining)"

text \<open>
  One pass through the body of \<open>while remaining:\<close>. \<open>Continue\<close> goes back to the loop
  test with the new token list and remainder, \<open>Break\<close> leaves the loop.
\<close>

datatype wx_step = Continue "pystr list" pystr | Break "pystr list"

definition wx_iter :: "pystr list \<Rightarrow> pystr \<Rightarrow> wx_step" where
  "wx_iter phenomena_cn remaining =
    (case (if length remaining \<ge> 3 then map_of WEATHER_PHENOMENA (take 3 remaining) else None) of
       Some cn3 \<Rightarrow> Continue (phenomena_cn @ [cn3]) (drop 3 remaining)
     | None \<Rightarrow>
        (case (if length remaining \<ge> 2 then map_of WEATHER_PHENOMENA (take 2 remaining) else None) of
           Some cn2 \<Rightarrow> Continue (phenomena_cn @ [cn2]) (drop 2 remaining)
         | None \<Rightarrow>
            (let found = descriptor_scan remaining
             in if remaining \<noteq> [] then Break (phenomena_cn @ [remaining])
                else Continue phenomena_cn remaining)))"

function wx_loop :: "pystr list \<Rightarrow> pystr \<Rightarrow> pystr list" where
  "wx_loop phenomena_cn remaining =
    (if remaining = [] then phenomena_cn
     else (case wx_iter phenomena_cn remaining of
             Continue p r \<Rightarrow> wx_loop p r
           | Break p \<Rightarrow> p))"
  by pat_completeness auto
termination
  by (relation "measure (\<lambda>(phenomena_cn, remaining). length remaining)")
     (auto simp: wx_iter_def Let_def split: option.splits if_splits)

declare wx_loop.simps [simp del]

text \<open>
  The same loop with a bound on the number of passes through its body: \<open>None\<close> when
  the bound is used up before the loop ends.
\<close>

fun wx_loop_fuel :: "nat \<Rightarrow> pystr list \<Rightarrow> pystr \<Rightarrow> pystr list option" where
  "wx_loop_fuel 0 phenomena_cn remaining =
    (if remaining = [] then Some phenomena_cn else None)"
| "wx_loop_fuel (Suc n) phenomena_cn remaining =
    (if remaining = [] then Some phenomena_cn
     else (case wx_iter phenomena_cn remaining of
             Continue p r \<Rightarrow> wx_loop_fuel n p r
           | Break p \<Rightarrow> Some p))"

definition parse_weather :: "pystr \<Rightarrow> pystr" where
  "parse_weather wx_string =
    (if wx_string = [] then []
     else case map_of WEATHER_PHENOMENA wx_string of
       Some cn \<Rightarrow> cn
     | None \<Rightarrow>
        (case modifiers_match wx_string of
           None \<Rightarrow> wx_string
         | Some (prefix, rest) \<Rightarrow>
            (let prefix_cn = (case map_of MODIFIERS prefix of Some cn \<Rightarrow> cn | None \<Rightarrow> []);
                 phenomena_cn = wx_loop [] rest
             in if prefix_cn \<noteq> [] \<and> phenomena_cn \<noteq> [] then prefix_cn @ concat phenomena_cn
                else if phenomena_cn \<noteq> [] then concat phenomena_cn
                else wx_string)))"

section \<open>Values and the Python runtime\<close>

subsection \<open>Exceptions\<close>

text \<open>
  The classes of the exceptions that the operations used by the module can raise, the
  operation that raised, and the value it was applied to. All five classes are subclasses
  of \<open>Exception\<close>.
\<close>

datatype exn_class = TypeError | ValueError | AttributeError | OverflowError | ZeroDivisionError

datatype raise_site =
    GetAttr | Iterate | Hash | ReArgument | IntConversion | FloatConversion
  | TrueDivision | FormatSpec

fun is_Exception :: "exn_class \<Rightarrow> bool" where
  "is_Exception TypeError = True"
| "is_Exception ValueError = True"
| "is_Exception AttributeError = True"
| "is_Exception OverflowError = True"
| "is_Exception ZeroDivisionError = True"

subsection \<open>Floats\<close>

text \<open>
  A Python \<open>float\<close> is an IEEE 754 binary64 number. \<open>Finite neg m e\<close> is the number
  \<open>(-1)^neg * m * 2^e\<close>, which keeps the sign of a zero.
\<close>

datatype pyfloat = Finite bool nat int | Infinity bool | NaN

text \<open>\<open>int.bit_length\<close>.\<close>

fun bit_length :: "nat \<Rightarrow> nat" where
  "bit_length n = (if n = 0 then 0 else Suc (bit_length (n div 2)))"

declare bit_length.simps [simp del]

text \<open>\<open>n / d\<close> rounded to the nearest integer, a tie to the even one (\<open>d > 0\<close>).\<close>

definition round_half_even :: "nat \<Rightarrow> nat \<Rightarrow> nat" where
  "round_half_even n d =
    (let q = n div d; r = n mod d
     in if 2 * r < d then q
        else if 2 * r > d then q + 1
        else if even q then q else q + 1)"

text \<open>
  The binary64 number nearest to \<open>n / d\<close> for \<open>n, d > 0\<close>, ties to even, as mantissa and
  exponent: 53 bits of mantissa, exponents of the last bit from \<open>-1074\<close> (subnormal
  numbers); \<open>None\<close> when the rounded number is \<open>2^1024\<close> or more (overflow).
\<close>

definition nearest_double :: "nat \<Rightarrow> nat \<Rightarrow> (nat \<times> int) option" where
  "nearest_double n d =
    (let k = int (bit_length n) - int (bit_length d);
         lead = (if (if k \<ge> 0 then n \<ge> d * 2 ^ nat k else n * 2 ^ nat (- k) \<ge> d)
                 then k else k - 1);
         e = max (lead - 52) (- 1074);
         m = (if e \<ge> 0 then round_half_even n (d * 2 ^ nat e)
              else round_half_even (n * 2 ^ nat (- e)) d)
     in if e \<ge> 0 \<and> m * 2 ^ nat e \<ge> 2 ^ 1024 then None else Some (m, e))"

text \<open>Conversion of an \<open>int\<close> to \<open>float\<close>: correctly rounded, \<open>OverflowError\<close> when too large.\<close>

definition float_of_int :: "int \<Rightarrow> exn_class + pyfloat" where
  "float_of_int i =
    (if i = 0 then Inr (Finite False 0 0)
     else case nearest_double (nat \<bar>i\<bar>) 1 of
            None \<Rightarrow> Inl OverflowError
          | Some (m, e) \<Rightarrow> Inr (Finite (i < 0) m e))"

text \<open>\<open>x * y\<close> on floats: the exact product rounded; an overflow gives an infinity.\<close>

definition float_mul :: "pyfloat \<Rightarrow> pyfloat \<Rightarrow> pyfloat" where
  "float_mul x y =
    (case (x, y) of
       (NaN, _) \<Rightarrow> NaN
     | (_, NaN) \<Rightarrow> NaN
     | (Infinity s, Infinity t) \<Rightarrow> Infinity (s \<noteq> t)
     | (Infinity s, Finite t m e) \<Rightarrow> if m = 0 then NaN else Infinity (s \<noteq> t)
     | (Finite s m e, Infinity t) \<Rightarrow> if m = 0 then NaN else Infinity (s \<noteq> t)
     | (Finite s m e, Finite t m' e') \<Rightarrow>
         if m * m' = 0 then Finite (s \<noteq> t) 0 0
         else (case (if e + e' \<ge> 0 then nearest_double (m * m' * 2 ^ nat (e + e')) 1
                     else nearest_double (m * m') (2 ^ nat (- (e + e')))) of
                 None \<Rightarrow> Infinity (s \<noteq> t)
               | Some (m'', e'') \<Rightarrow> Finite (s \<noteq> t) m'' e''))"

text \<open>\<open>a / b\<close> on ints (true division): the correctly rounded quotient.\<close>

definition int_truediv :: "int \<Rightarrow> int \<Rightarrow> exn_class + pyfloat" where
  "int_truediv a b =
    (if b = 0 then Inl ZeroDivisionError
     else if a = 0 then Inr (Finite (b < 0) 0 0)
     else case nearest_double (nat \<bar>a\<bar>) (nat \<bar>b\<bar>) of
            None \<Rightarrow> Inl OverflowError
          | Some (m, e) \<Rightarrow> Inr (Finite ((a < 0) \<noteq> (b < 0)) m e))"

text \<open>The float literal \<open>0.3048\<close> of the source: \<open>0x1.381d7dbf487fdp-2\<close>.\<close>

definition float_0_3048 :: pyfloat where
  "float_0_3048 = Finite False 5490788665690109 (- 54)"

text \<open>\<open>str\<close> of an \<open>int\<close>: decimal digits, with a minus sign when negative.\<close>

fun dec_nat :: "nat \<Rightarrow> pystr" where
  "dec_nat n = (if n < 10 then [48 + n] else dec_nat (n div 10) @ [48 + n mod 10])"

declare dec_nat.simps [simp del]

definition str_int :: "int \<Rightarrow> pystr" where
  "str_int i = (if i < 0 then 45 # dec_nat (nat (- i)) else dec_nat (nat i))"

text \<open>
  The format specification \<open>.kf\<close> on a float: the exact value rounded to \<open>k\<close> decimals,
  ties to even, with the sign of the float.
\<close>

definition format_fixed :: "nat \<Rightarrow> pyfloat \<Rightarrow> pystr" where
  "format_fixed k x =
    (case x of
       NaN \<Rightarrow> asc ''nan''
     | Infinity s \<Rightarrow> (if s then asc ''-inf'' else asc ''inf'')
     | Finite s m e \<Rightarrow>
        (let D = (if e \<ge> 0 then m * 10 ^ k * 2 ^ nat e
                  else round_half_even (m * 10 ^ k) (2 ^ nat (- e)));
             frac = dec_nat (D mod 10 ^ k)
         in (if s then asc ''-'' else []) @ dec_nat (D div 10 ^ k) @
            (if k = 0 then [] else asc ''.'' @ replicate (k - length frac) 48 @ frac)))"

subsection \<open>Values decoded from JSON\<close>

datatype pyval =
    PNone
  | PBool bool
  | PInt int
  | PFloat pyfloat
  | PStr pystr
  | PList "pyval list"
  | PDict "(pystr \<times> pyval) list"

datatype pyexn = Raised exn_class raise_site pyval

fun class_of :: "pyexn \<Rightarrow> exn_class" where
  "class_of (Raised c site v) = c"

text \<open>
  What the module takes from the Python runtime and its libraries without fixing it:
  \<^item> \<open>float_repr\<close>: \<open>str\<close> of a float (the shortest string that reads back);
  \<^item> \<open>container_repr\<close>: \<open>str\<close> of a list or dict;
  \<^item> \<open>int_of_str\<close>: \<open>int(s)\<close> for a string that is not a plain run of at most 4300 ASCII
    digits (signs, white space, underscores, other decimal digits, the limit on the number
    of digits), \<open>None\<close> for \<open>ValueError\<close>;
  \<^item> \<open>unicode_digit\<close>: whether a code point outside ASCII is a decimal digit (\<open>\d\<close>);
  \<^item> \<open>fromisoformat_strftime\<close>:
    \<open>datetime.fromisoformat(s).strftime("%Y-%m-%d %H:%M UTC")\<close>, \<open>None\<close> when it raises;
  \<^item> \<open>exn_str\<close>: \<open>str(e)\<close> of an exception.
\<close>

record runtime =
  float_repr :: "pyfloat \<Rightarrow> pystr"
  container_repr :: "pyval \<Rightarrow> pystr"
  int_of_str :: "pystr \<Rightarrow> int option"
  unicode_digit :: "nat \<Rightarrow> bool"
  fromisoformat_strftime :: "pystr \<Rightarrow> pystr option"
  exn_str :: "pyexn \<Rightarrow> pystr"

text \<open>\<open>str(v)\<close>, which is also \<open>f"{v}"\<close>.\<close>

definition str_val :: "runtime \<Rightarrow> pyval \<Rightarrow> pystr" where
  "str_val rt v =
    (case v of
       PNone \<Rightarrow> asc ''None''
     | PBool b \<Rightarrow> (if b then asc ''True'' else asc ''False'')
     | PInt i \<Rightarrow> str_int i
     | PFloat x \<Rightarrow> float_repr rt x
     | PStr s \<Rightarrow> s
     | PList xs \<Rightarrow> container_repr rt v
     | PDict kvs \<Rightarrow> container_repr rt v)"

text \<open>Truth value of \<open>v\<close> in \<open>if v\<close>.\<close>

definition truthy :: "pyval \<Rightarrow> bool" where
  "truthy v =
    (case v of
       PNone \<Rightarrow> False
     | PBool b \<Rightarrow> b
     | PInt i \<Rightarrow> i \<noteq> 0
     | PFloat x \<Rightarrow> (case x of Finite s m e \<Rightarrow> m \<noteq> 0 | Infinity s \<Rightarrow> True | NaN \<Rightarrow> True)
     | PStr s \<Rightarrow> s \<noteq> []
     | PList xs \<Rightarrow> xs \<noteq> []
     | PDict kvs \<Rightarrow> kvs \<noteq> [])"

text \<open>Lists and dicts cannot be keys of a dict: looking one up raises \<open>TypeError\<close>.\<close>

definition hashable :: "pyval \<Rightarrow> bool" where
  "hashable v = (case v of PList xs \<Rightarrow> False | PDict kvs \<Rightarrow> False | _ \<Rightarrow> True)"

text \<open>Lookup of a hashable value in a table whose keys are strings.\<close>

definition lookup_val :: "(pystr \<times> 'v) list \<Rightarrow> pyval \<Rightarrow> 'v option" where
  "lookup_val table v = (case v of PStr s \<Rightarrow> map_of table s | _ \<Rightarrow> None)"

text \<open>\<open>d.get(key, default)\<close>.\<close>

definition dict_get :: "(pystr \<times> pyval) list \<Rightarrow> pystr \<Rightarrow> pyval \<Rightarrow> pyval" where
  "dict_get d key dflt = (case map_of d key of Some v \<Rightarrow> v | None \<Rightarrow> dflt)"

text \<open>\<open>int(v)\<close>.\<close>

definition ascii_digit :: "nat \<Rightarrow> bool" where
  "ascii_digit c = (48 \<le> c \<and> c \<le> 57)"

definition int_of_val :: "runtime \<Rightarrow> pyval \<Rightarrow> exn_class + int" where
  "int_of_val rt v =
    (case v of
       PStr s \<Rightarrow>
         if s \<noteq> [] \<and> length s \<le> 4300 \<and> list_all ascii_digit s
         then Inr (int (foldl (\<lambda>a c. 10 * a + (c - 48)) 0 s))
         else (case int_of_str rt s of Some i \<Rightarrow> Inr i | None \<Rightarrow> Inl ValueError)
     | PInt i \<Rightarrow> Inr i
     | PBool b \<Rightarrow> Inr (if b then 1 else 0)
     | PFloat x \<Rightarrow>
        (case x of
           Finite s m e \<Rightarrow>
             Inr ((if s then - 1 else 1) *
                  int (if e \<ge> 0 then m * 2 ^ nat e else m div 2 ^ nat (- e)))
         | Infinity s \<Rightarrow> Inl OverflowError
         | NaN \<Rightarrow> Inl ValueError)
     | PNone \<Rightarrow> Inl TypeError
     | PList xs \<Rightarrow> Inl TypeError
     | PDict kvs \<Rightarrow> Inl TypeError)"

text \<open>\<open>f"{v:.2f}"\<close>: floats, and ints after conversion to float, have this format.\<close>

definition format_2f :: "pyval \<Rightarrow> exn_class + pystr" where
  "format_2f v =
    (case v of
       PFloat x \<Rightarrow> Inr (format_fixed 2 x)
     | PInt i \<Rightarrow> map_sum id (format_fixed 2) (float_of_int i)
     | PBool b \<Rightarrow> map_sum id (format_fixed 2) (float_of_int (if b then 1 else 0))
     | PStr s \<Rightarrow> Inl ValueError
     | PNone \<Rightarrow> Inl TypeError
     | PList xs \<Rightarrow> Inl TypeError
     | PDict kvs \<Rightarrow> Inl TypeError)"

text \<open>\<open>sep.join(xs)\<close>.\<close>

fun join :: "pystr \<Rightarrow> pystr list \<Rightarrow> pystr" where
  "join sep [] = []"
| "join sep [x] = x"
| "join sep (x # y # ys) = x @ sep @ join sep (y # ys)"

text \<open>\<open>sub in s\<close> on strings.\<close>

fun contains :: "pystr \<Rightarrow> pystr \<Rightarrow> bool" where
  "contains [] sub = (sub = [])"
| "contains (c # cs) sub = (take (length sub) (c # cs) = sub \<or> contains cs sub)"

section \<open>\<open>parse_clouds\<close>\<close>

definition CLOUD_COVER :: "(pystr \<times> pystr) list" where
  "CLOUD_COVER =
    [(asc ''FEW'', [0x5C11, 0x4E91] @ asc ''(1-2/8)''),
     (asc ''SCT'', [0x758F, 0x4E91] @ asc ''(3-4/8)''),
     (asc ''BKN'', [0x591A, 0x4E91] @ asc ''(5-7/8)''),
     (asc ''OVC'', [0x9634, 0x5929] @ asc ''(8/8)''),
     (asc ''SKC'', [0x6674, 0x7A7A]),
     (asc ''NSC'', [0x65E0, 0x91CD, 0x8981, 0x4E91]),
     (asc ''CLR'', [0x65E0, 0x4E91]),
     (asc ''NCD'', [0x65E0, 0x4E91])]"

definition CLOUD_TYPES :: "(pystr \<times> pystr) list" where
  "CLOUD_TYPES =
    [(asc ''TCU'', [0x5854, 0x72B6, 0x79EF, 0x4E91]),
     (asc ''CB'', [0x79EF, 0x96E8, 0x4E91])]"

text \<open>The label of the height clause (cloud base) and the text for no clouds.\<close>

definition cloud_base_label :: pystr where
  "cloud_base_label = [0x20, 0x4E91, 0x5E95, 0x20]"

definition no_clouds :: pystr where
  "no_clouds = [0x65E0, 0x4E91]"

text \<open>
  The height clause of one layer: \<open>int(base)\<close> under \<open>except (ValueError, TypeError)\<close>,
  which lets an \<open>OverflowError\<close> through, as does the multiplication by \<open>0.3048\<close> of an
  int too large for a float.
\<close>

definition height_str :: "runtime \<Rightarrow> pyval \<Rightarrow> pyexn + pystr" where
  "height_str rt base =
    (if truthy base \<and> base \<noteq> PStr (asc ''N/A'') then
       (case int_of_val rt base of
          Inl c \<Rightarrow>
            if c = ValueError \<or> c = TypeError then Inr (cloud_base_label @ str_val rt base)
            else Inl (Raised c IntConversion base)
        | Inr base_int \<Rightarrow>
           (case float_of_int base_int of
              Inl c \<Rightarrow>
                if c = ValueError \<or> c = TypeError then Inr (cloud_base_label @ str_val rt base)
                else Inl (Raised c FloatConversion (PInt base_int))
            | Inr x \<Rightarrow>
                Inr (cloud_base_label @ str_int base_int @ asc ''ft ('' @
                     format_fixed 0 (float_mul x float_0_3048) @ asc ''m)'')))
     else Inr [])"

definition type_str :: "pyval \<Rightarrow> pyval \<Rightarrow> pyexn + pystr" where
  "type_str cloud_type cover =
    (if \<not> hashable cloud_type then Inl (Raised TypeError Hash cloud_type)
     else case lookup_val CLOUD_TYPES cloud_type of
       Some t \<Rightarrow> Inr (asc '' '' @ t)
     | None \<Rightarrow>
        (if \<not> hashable cover then Inl (Raised TypeError Hash cover)
         else case lookup_val CLOUD_TYPES cover of
           Some t \<Rightarrow> Inr (asc '' '' @ t)
         | None \<Rightarrow> Inr []))"

text \<open>The body of \<open>for c in clouds\<close>: the text of one layer.\<close>

definition cloud_layer :: "runtime \<Rightarrow> pyval \<Rightarrow> pyexn + pystr" where
  "cloud_layer rt c =
    (case c of
       PDict kvs \<Rightarrow>
        (let cover = dict_get kvs (asc ''cover'') (PStr []);
             base = dict_get kvs (asc ''base'') (PStr []);
             cloud_type = dict_get kvs (asc ''cloudType'') (PStr [])
         in if \<not> hashable cover then Inl (Raised TypeError Hash cover)
            else
             (let cover_cn = (case lookup_val CLOUD_COVER cover of
                                Some t \<Rightarrow> PStr t | None \<Rightarrow> cover)
              in case height_str rt base of
                   Inl e \<Rightarrow> Inl e
                 | Inr h \<Rightarrow>
                    (case type_str cloud_type cover of
                       Inl e \<Rightarrow> Inl e
                     | Inr t \<Rightarrow> Inr (str_val rt cover_cn @ h @ t))))
     | _ \<Rightarrow> Inl (Raised AttributeError GetAttr c))"

fun cloud_loop :: "runtime \<Rightarrow> pyval list \<Rightarrow> pystr list \<Rightarrow> pyexn + pystr list" where
  "cloud_loop rt [] cloud_info = Inr cloud_info"
| "cloud_loop rt (c # cs) cloud_info =
    (case cloud_layer rt c of
       Inl e \<Rightarrow> Inl e
     | Inr layer \<Rightarrow> cloud_loop rt cs (cloud_info @ [layer]))"

text \<open>
  What \<open>for c in clouds\<close> goes through: the items of a list, the characters of a string,
  the keys of a dict; other values are not iterable.
\<close>

definition iterate :: "pyval \<Rightarrow> pyexn + pyval list" where
  "iterate v =
    (case v of
       PList xs \<Rightarrow> Inr xs
     | PStr s \<Rightarrow> Inr (map (\<lambda>c. PStr [c]) s)
     | PDict kvs \<Rightarrow> Inr (map (\<lambda>kv. PStr (fst kv)) kvs)
     | _ \<Rightarrow> Inl (Raised TypeError Iterate v))"

definition parse_clouds :: "runtime \<Rightarrow> pyval \<Rightarrow> pyexn + pystr" where
  "parse_clouds rt clouds =
    (if \<not> truthy clouds then Inr no_clouds
     else case iterate clouds of
       Inl e \<Rightarrow> Inl e
     | Inr cs \<Rightarrow>
        (case cloud_loop rt cs [] of
           Inl e \<Rightarrow> Inl e
         | Inr cloud_info \<Rightarrow> Inr (join (asc '' / '') cloud_info)))"

section \<open>\<open>parse_metar\<close>\<close>

definition FLT_CAT :: "(pystr \<times> pystr \<times> pystr) list" where
  "FLT_CAT =
    [(asc ''VFR'', asc ''VFR '' @ [0x76EE, 0x89C6], [0x1F7E2]),
     (asc ''MVFR'', asc ''MVFR '' @ [0x8FB9, 0x7F18], [0x1F535]),
     (asc ''IFR'', asc ''IFR '' @ [0x4EEA, 0x8868], [0x1F534]),
     (asc ''LIFR'', asc ''LIFR '' @ [0x4F4E, 0x4EEA, 0x8868], [0x1F7E3])]"

text \<open>The fixed texts of the report, in the order of the source.\<close>

definition wind_variable :: pystr where
  "wind_variable = [0x98CE, 0x5411, 0x4E0D, 0x5B9A]"

definition wind_none :: pystr where
  "wind_none = [0x65E0, 0x98CE]"

definition gust_label :: pystr where
  "gust_label = [0x20, 0x9635, 0x98CE, 0x20]"

definition raw_label :: pystr where
  "raw_label = [0x1F4C4, 0x20, 0x539F, 0x59CB, 0x62A5, 0x6587, 0x3A, 0x20]"

definition station_label :: pystr where
  "station_label = [0x1F4CD, 0x20]"

definition time_label :: pystr where
  "time_label = [0x23F0, 0x20, 0x89C2, 0x6D4B, 0x65F6, 0x95F4, 0x3A, 0x20]"

definition wind_label :: pystr where
  "wind_label = [0x1F4A8, 0x20, 0x98CE, 0x5411, 0x98CE, 0x901F, 0x3A, 0x20]"

definition vis_label :: pystr where
  "vis_label = [0x1F441, 0xFE0F, 0x20, 0x80FD, 0x89C1, 0x5EA6, 0x3A, 0x20]"

definition wx_label :: pystr where
  "wx_label = [0x1F324, 0xFE0F, 0x20, 0x5929, 0x6C14, 0x3A, 0x20]"

definition clouds_label :: pystr where
  "clouds_label = [0x2601, 0xFE0F, 0x20, 0x4E91, 0x91CF, 0x3A, 0x20]"

definition temp_label :: pystr where
  "temp_label = [0x1F321, 0xFE0F, 0x20, 0x6E29, 0x5EA6, 0x3A, 0x20]"

definition dewp_label :: pystr where
  "dewp_label = [0x1F4A7, 0x20, 0x9732, 0x70B9, 0x3A, 0x20]"

definition altim_label :: pystr where
  "altim_label = [0x1F4CA, 0x20, 0x6C14, 0x538B, 0x3A, 0x20]"

definition flt_label :: pystr where
  "flt_label = [0x2708, 0xFE0F, 0x20, 0x8FD0, 0x884C, 0x6807, 0x51C6, 0x3A, 0x20]"

definition failure_label :: pystr where
  "failure_label = [0x89E3, 0x6790, 0x5931, 0x8D25, 0x3A, 0x20]"

definition degree_C :: pystr where
  "degree_C = [0xB0, 0x43]"

definition degree_slash :: pystr where
  "degree_slash = [0xB0, 0x2F]"

definition NA :: pyval where
  "NA = PStr (asc ''N/A'')"

text \<open>
  The observation time: \<open>reportTime.replace("Z", "+00:00")\<close> read as an ISO time and
  written as \<open>%Y-%m-%d %H:%M UTC\<close>; whatever is raised on the way (a value without
  \<open>replace\<close>, a string that is no ISO time) is dropped and the value stays as it is.
\<close>

definition replace_Z :: "pystr \<Rightarrow> pystr" where
  "replace_Z s = concat (map (\<lambda>c. if c = 90 then asc ''+00:00'' else [c]) s)"

definition report_time :: "runtime \<Rightarrow> (pystr \<times> pyval) list \<Rightarrow> pyval" where
  "report_time rt metar_data =
    (let reportTime = dict_get metar_data (asc ''reportTime'') NA
     in if reportTime \<noteq> NA then
          (case reportTime of
             PStr s \<Rightarrow>
               (case fromisoformat_strftime rt (replace_Z s) of
                  Some t \<Rightarrow> PStr t
                | None \<Rightarrow> reportTime)
           | _ \<Rightarrow> reportTime)
        else reportTime)"

text \<open>The wind text.\<close>

definition wind :: "runtime \<Rightarrow> (pystr \<times> pyval) list \<Rightarrow> pystr" where
  "wind rt metar_data =
    (let windDir = dict_get metar_data (asc ''wdir'') NA;
         windSpeed = dict_get metar_data (asc ''wspd'') NA;
         gust = dict_get metar_data (asc ''wgst'') (PStr [])
     in if windDir = PStr (asc ''VRB'') then wind_variable
        else if windDir = NA \<or> windSpeed = NA then wind_none
        else (let gust_str = (if truthy gust then gust_label @ str_val rt gust @ asc ''kt''
                              else [])
              in str_val rt windDir @ degree_slash @ str_val rt windSpeed @ asc ''kt'' @ gust_str))"

text \<open>The visibility text.\<close>

definition vis :: "runtime \<Rightarrow> (pystr \<times> pyval) list \<Rightarrow> pystr" where
  "vis rt metar_data =
    (let v = dict_get metar_data (asc ''visib'') NA
     in if v \<noteq> NA then str_val rt v @ asc '' statute miles'' else asc ''N/A'')"

text \<open>
  \<open>parse_weather\<close> on a value that need not be a string: the lookup in \<open>WEATHER_PHENOMENA\<close>
  raises on a list or dict, \<open>re.match\<close> raises on every other value that is no string.
\<close>

definition parse_weather_val :: "pyval \<Rightarrow> pyexn + pystr" where
  "parse_weather_val wx_string =
    (case wx_string of
       PStr s \<Rightarrow> Inr (parse_weather s)
     | PList xs \<Rightarrow> Inl (Raised TypeError Hash wx_string)
     | PDict kvs \<Rightarrow> Inl (Raised TypeError Hash wx_string)
     | _ \<Rightarrow> Inl (Raised TypeError ReArgument wx_string))"

definition wx :: "(pystr \<times> pyval) list \<Rightarrow> pyexn + pystr" where
  "wx metar_data =
    (let wx_raw = dict_get metar_data (asc ''wxString'') (PStr [])
     in if truthy wx_raw then parse_weather_val wx_raw else Inr [])"

text \<open>
  \<open>re.search(r"A(\d{4})", raw_ob)\<close>: the four digits after the first \<open>A\<close> that is followed
  by four decimal digits.
\<close>

definition is_digit :: "runtime \<Rightarrow> nat \<Rightarrow> bool" where
  "is_digit rt c = (ascii_digit c \<or> (c \<ge> 128 \<and> unicode_digit rt c))"

fun us_altim_search :: "runtime \<Rightarrow> pystr \<Rightarrow> pystr option" where
  "us_altim_search rt [] = None"
| "us_altim_search rt (c # cs) =
    (if c = 65 \<and> length cs \<ge> 4 \<and> list_all (is_digit rt) (take 4 cs) then Some (take 4 cs)
     else us_altim_search rt cs)"

text \<open>
  The pattern \<open>A(\d{4})\<close> matches at the start of \<open>s\<close>: the letter \<open>A\<close> and then four
  decimal digits.
\<close>

definition altim_pattern_at :: "runtime \<Rightarrow> pystr \<Rightarrow> bool" where
  "altim_pattern_at rt s =
    (case s of
       [] \<Rightarrow> False
     | c # cs \<Rightarrow> c = 65 \<and> length cs \<ge> 4 \<and> list_all (is_digit rt) (take 4 cs))"

text \<open>The pressure text \<open>altim_str\<close>.\<close>

definition altim_str :: "runtime \<Rightarrow> (pystr \<times> pyval) list \<Rightarrow> pyexn + pystr" where
  "altim_str rt metar_data =
    (let raw_ob = dict_get metar_data (asc ''rawOb'') (PStr []);
         altim = dict_get metar_data (asc ''altim'') NA
     in if altim \<noteq> NA then
          (case raw_ob of
             PStr raw \<Rightarrow>
               (case us_altim_search rt raw of
                  Some us_altim \<Rightarrow>
                    (case int_of_val rt (PStr us_altim) of
                       Inl c \<Rightarrow> Inl (Raised c IntConversion (PStr us_altim))
                     | Inr i \<Rightarrow>
                        (case int_truediv i 100 of
                           Inl c \<Rightarrow> Inl (Raised c TrueDivision (PInt i))
                         | Inr x \<Rightarrow>
                            (let us_altim_inhg = format_fixed 2 x
                             in case format_2f altim of
                                  Inl c \<Rightarrow> Inl (Raised c FormatSpec altim)
                                | Inr a \<Rightarrow> Inr (a @ asc '' inHg A'' @ us_altim_inhg))))
                | None \<Rightarrow>
                    (case format_2f altim of
                       Inl c \<Rightarrow> Inl (Raised c FormatSpec altim)
                     | Inr a \<Rightarrow> Inr (a @ asc '' inHg'')))
           | _ \<Rightarrow> Inl (Raised TypeError ReArgument raw_ob))
        else Inr (asc ''N/A''))"

text \<open>The line of the flight category, if there is one.\<close>

definition flt_cat_lines :: "(pystr \<times> pyval) list \<Rightarrow> pyexn + pystr list" where
  "flt_cat_lines metar_data =
    (let flt_cat = dict_get metar_data (asc ''fltCat'') (PStr [])
     in if truthy flt_cat then
          (if \<not> hashable flt_cat then Inl (Raised TypeError Hash flt_cat)
           else case lookup_val FLT_CAT flt_cat of
             Some (cat_name, cat_emoji) \<Rightarrow> Inr [flt_label @ cat_emoji @ asc '' '' @ cat_name]
           | None \<Rightarrow> Inr [])
        else Inr [])"

text \<open>The list \<open>lines\<close> at the end of the \<open>try\<close> block, or the first exception raised.\<close>

definition report_lines :: "runtime \<Rightarrow> (pystr \<times> pyval) list \<Rightarrow> pyexn + pystr list" where
  "report_lines rt metar_data =
    (let raw_ob = dict_get metar_data (asc ''rawOb'') (PStr []);
         icao = dict_get metar_data (asc ''icaoId'') NA;
         name = dict_get metar_data (asc ''name'') NA;
         reportTime = report_time rt metar_data;
         temp = dict_get metar_data (asc ''temp'') NA;
         dewp = dict_get metar_data (asc ''dewp'') NA;
         altim = dict_get metar_data (asc ''altim'') NA
     in case wx metar_data of
          Inl e \<Rightarrow> Inl e
        | Inr wx_cn \<Rightarrow>
           (case parse_clouds rt (dict_get metar_data (asc ''clouds'') (PList [])) of
              Inl e \<Rightarrow> Inl e
            | Inr clouds_str \<Rightarrow>
               (case altim_str rt metar_data of
                  Inl e \<Rightarrow> Inl e
                | Inr altim_s \<Rightarrow>
                   (case flt_cat_lines metar_data of
                      Inl e \<Rightarrow> Inl e
                    | Inr flt \<Rightarrow>
                       Inr ((if truthy raw_ob then [raw_label @ str_val rt raw_ob] else []) @
                            [station_label @ str_val rt name @ asc '' ('' @ str_val rt icao @ asc '')'',
                             time_label @ str_val rt reportTime,
                             wind_label @ wind rt metar_data,
                             vis_label @ vis rt metar_data] @
                            (if wx_cn \<noteq> [] then [wx_label @ wx_cn] else []) @
                            [clouds_label @ clouds_str] @
                            (if temp \<noteq> NA then [temp_label @ str_val rt temp @ degree_C] else []) @
                            (if dewp \<noteq> NA then [dewp_label @ str_val rt dewp @ degree_C] else []) @
                            (if altim \<noteq> NA then [altim_label @ altim_s] else []) @
                            flt)))))"

text \<open>
  The \<open>try\<close> block of \<open>parse_metar\<close>: \<open>metar_data.get\<close> needs a dict; the result is the
  lines joined by line feeds.
\<close>

definition parse_metar_try :: "runtime \<Rightarrow> pyval \<Rightarrow> pyexn + pystr" where
  "parse_metar_try rt metar_data =
    (case metar_data of
       PDict d \<Rightarrow>
        (case report_lines rt d of
           Inl e \<Rightarrow> Inl e
         | Inr lines \<Rightarrow> Inr (join [10] lines))
     | _ \<Rightarrow> Inl (Raised AttributeError GetAttr metar_data))"

text \<open>
  \<open>parse_metar\<close> with its handler \<open>except Exception as e\<close>: \<open>Inr\<close> is the string returned,
  \<open>Inl\<close> an exception that leaves the function.
\<close>

definition parse_metar :: "runtime \<Rightarrow> pyval \<Rightarrow> pyexn + pystr" where
  "parse_metar rt metar_data =
    (case parse_metar_try rt metar_data of
       Inr report \<Rightarrow> Inr report
     | Inl e \<Rightarrow>
        if is_Exception (class_of e) then Inr (failure_label @ exn_str rt e)
        else Inl e)"

section \<open>Inputs of the examples\<close>

text \<open>The float \<open>29.92\<close>: \<open>0x1.deb851eb851ecp+4\<close>.\<close>

definition float_29_92 :: pyfloat where
  "float_29_92 = Finite False 8421731303182828 (- 48)"

text \<open>
  A runtime for evaluating examples: floats print with one decimal, lists and dicts as
  \<open>...\<close>, \<open>int\<close> accepts plain ASCII digits only, \<open>\d\<close> matches ASCII digits only, no
  string is an ISO time, and \<open>str(e)\<close> is \<open>error\<close>.
\<close>

definition example_runtime :: runtime where
  "example_runtime =
    \<lparr> float_repr = format_fixed 1,
      container_repr = (\<lambda>v. asc ''...''),
      int_of_str = (\<lambda>s. None),
      unicode_digit = (\<lambda>c. False),
      fromisoformat_strftime = (\<lambda>s. None),
      exn_str = (\<lambda>e. asc ''error'') \<rparr>"

section \<open>Properties of \<open>parse_weather\<close>\<close>

subsection \<open>Unfolding the loop one pass at a time\<close>

lemma wx_loop_Nil: "wx_loop phenomena_cn [] = phenomena_cn"
  by (simp add: wx_loop.simps)

lemma wx_loop_Continue:
  "remaining \<noteq> [] \<Longrightarrow> wx_iter phenomena_cn remaining = Continue p r \<Longrightarrow>
     wx_loop phenomena_cn remaining = wx_loop p r"
  by (subst wx_loop.simps) simp

lemma wx_loop_Break:
  "remaining \<noteq> [] \<Longrightarrow> wx_iter phenomena_cn remaining = Break p \<Longrightarrow>
     wx_loop phenomena_cn remaining = p"
  by (subst wx_loop.simps) simp

lemma wx_iter_fallback:
  assumes ne: "remaining \<noteq> []"
    and h3: "map_of WEATHER_PHENOMENA (take 3 remaining) = None"
    and h2: "map_of WEATHER_PHENOMENA (take 2 remaining) = None"
  shows "wx_iter phenomena_cn remaining = Break (phenomena_cn @ [remaining])"
proof -
  have a: "(if length remaining \<ge> 3 then map_of WEATHER_PHENOMENA (take 3 remaining) else None) = None"
    using h3 by simp
  have b: "(if length remaining \<ge> 2 then map_of WEATHER_PHENOMENA (take 2 remaining) else None) = None"
    using h2 by simp
  show ?thesis
    unfolding wx_iter_def Let_def
    by (simp only: a b option.simps ne not_False_eq_True if_True)
qed

lemma wx_iter_Continue_length:
  "wx_iter phenomena_cn remaining = Continue p r \<Longrightarrow> remaining \<noteq> [] \<Longrightarrow>
     length r + 2 \<le> length remaining"
  by (auto simp: wx_iter_def Let_def split: option.splits if_splits)

lemma wx_iter_Break_token:
  "wx_iter phenomena_cn remaining = Break p \<Longrightarrow> p = phenomena_cn @ [remaining]"
  by (auto simp: wx_iter_def Let_def split: option.splits if_splits)

lemma wx_loop_fuel_enough:
  "length remaining div 2 < n \<Longrightarrow>
     wx_loop_fuel n phenomena_cn remaining = Some (wx_loop phenomena_cn remaining)"
proof (induction n arbitrary: phenomena_cn remaining)
  case 0
  then show ?case by simp
next
  case (Suc n)
  show ?case
  proof (cases "remaining = []")
    case True
    then show ?thesis by (simp add: wx_loop_Nil)
  next
    case ne: False
    show ?thesis
    proof (cases "wx_iter phenomena_cn remaining")
      case (Continue p r)
      from wx_iter_Continue_length [OF Continue ne] Suc.prems
      have "length r div 2 < n" by linarith
      then have "wx_loop_fuel n p r = Some (wx_loop p r)" by (rule Suc.IH)
      with ne Continue show ?thesis by (simp add: wx_loop_Continue)
    next
      case (Break p)
      with ne show ?thesis by (simp add: wx_loop_Break)
    qed
  qed
qed

subsection \<open>The input \<open>+TSRA\<close>\<close>

lemma lookup_TSR: "map_of WEATHER_PHENOMENA (asc ''TSR'') = None"
  by (simp add: WEATHER_PHENOMENA_def asc_def)

lemma lookup_TS: "map_of WEATHER_PHENOMENA (asc ''TS'') = None"
  by (simp add: WEATHER_PHENOMENA_def asc_def)

lemma match_plus_TSRA: "modifiers_match (asc ''+TSRA'') = Some (asc ''+'', asc ''TSRA'')"
  by (simp add: modifiers_match_def modifier_alternatives_def asc_def Let_def)

lemma scan_TSRA: "descriptor_scan (asc ''TSRA'')"
  by (simp add: descriptor_scan_def descriptor_at_def has_key_def MODIFIERS_def
        WEATHER_PHENOMENA_def asc_def)

lemma loop_TSRA: "wx_loop [] (asc ''TSRA'') = [asc ''TSRA'']"
proof -
  have ne: "asc ''TSRA'' \<noteq> []" by (simp add: asc_def)
  have t3: "take 3 (asc ''TSRA'') = asc ''TSR''" by (simp add: asc_def)
  have t2: "take 2 (asc ''TSRA'') = asc ''TS''" by (simp add: asc_def)
  have "wx_iter [] (asc ''TSRA'') = Break ([] @ [asc ''TSRA''])"
    by (rule wx_iter_fallback) (simp_all only: ne t3 t2 lookup_TSR lookup_TS not_False_eq_True)
  then show ?thesis using wx_loop_Break [OF ne] by simp
qed

text \<open>
  C1. \<open>parse_weather("+TSRA")\<close> is claimed to be the translation of \<open>+\<close> followed by the
  translations of \<open>TS\<close> and \<open>RA\<close> (U+5F3A, U+96F7 U+66B4, U+96E8). The code takes \<open>+\<close> as
  the prefix and then looks \<open>TSR\<close> and \<open>TS\<close> up in \<open>WEATHER_PHENOMENA\<close>, where \<open>TS\<close> is no
  key (it is a key of \<open>MODIFIERS\<close>); the descriptor scan finds \<open>TS\<close> + \<open>RA\<close> and does nothing
  with it, so the remainder \<open>TSRA\<close> is appended untranslated: the result is U+5F3A followed by
  the four letters \<open>TSRA\<close>.
\<close>

theorem parse_weather_plus_TSRA:
  "parse_weather (asc ''+TSRA'') = [0x5F3A] @ asc ''TSRA'' \<and>
   parse_weather (asc ''+TSRA'') \<noteq> [0x5F3A] @ [0x96F7, 0x66B4] @ [0x96E8] \<and>
   descriptor_scan (asc ''TSRA'')"
proof -
  have a: "map_of WEATHER_PHENOMENA (asc ''+TSRA'') = None"
    by (simp add: WEATHER_PHENOMENA_def asc_def)
  have b: "map_of MODIFIERS (asc ''+'') = Some [0x5F3A]"
    by (simp add: MODIFIERS_def asc_def)
  have ne: "asc ''+TSRA'' \<noteq> []" by (simp add: asc_def)
  have r: "parse_weather (asc ''+TSRA'') = [0x5F3A] @ asc ''TSRA''"
    by (simp add: parse_weather_def ne a b match_plus_TSRA loop_TSRA)
  have d: "[0x5F3A] @ asc ''TSRA'' \<noteq> [0x5F3A] @ [0x96F7, 0x66B4] @ [0x96E8::nat]"
    by (simp add: asc_def)
  from r d scan_TSRA show ?thesis by simp
qed

subsection \<open>Codes of the phenomenon table\<close>

lemma WEATHER_PHENOMENA_key_length:
  "map_of WEATHER_PHENOMENA code = Some cn \<Longrightarrow> length code = 2"
  by (auto simp: WEATHER_PHENOMENA_def asc_def split: if_splits)

text \<open>
  C5. For every code that is a key of \<open>WEATHER_PHENOMENA\<close> (each of them has two
  characters), \<open>parse_weather\<close> of the code alone is the table's translation of it.
\<close>

theorem parse_weather_table_code:
  "map_of WEATHER_PHENOMENA code = Some cn \<Longrightarrow>
     length code = 2 \<and> parse_weather code = cn"
proof -
  assume h: "map_of WEATHER_PHENOMENA code = Some cn"
  then have l: "length code = 2" by (rule WEATHER_PHENOMENA_key_length)
  then have "code \<noteq> []" by auto
  with h l show ?thesis by (simp add: parse_weather_def)
qed

theorem parse_weather_table_code_witness:
  "map_of WEATHER_PHENOMENA (asc ''RA'') = Some [0x96E8] \<and>
   length (asc ''RA'') = 2 \<and> parse_weather (asc ''RA'') = [0x96E8]"
proof -
  have h: "map_of WEATHER_PHENOMENA (asc ''RA'') = Some [0x96E8]"
    by (simp add: WEATHER_PHENOMENA_def asc_def)
  from h parse_weather_table_code [OF h] show ?thesis by simp
qed

subsection \<open>The literal fallback\<close>

lemma parse_weather_ZZZZ: "parse_weather (asc ''ZZZZ'') = asc ''ZZZZ''"
proof -
  have ne: "asc ''ZZZZ'' \<noteq> []" by (simp add: asc_def)
  have a: "map_of WEATHER_PHENOMENA (asc ''ZZZZ'') = None"
    by (simp add: WEATHER_PHENOMENA_def asc_def)
  have m: "modifiers_match (asc ''ZZZZ'') = Some ([], asc ''ZZZZ'')"
    by (simp add: modifiers_match_def modifier_alternatives_def asc_def Let_def)
  have b: "map_of MODIFIERS [] = Some []"
    by (simp add: MODIFIERS_def asc_def)
  have h3: "map_of WEATHER_PHENOMENA (take 3 (asc ''ZZZZ'')) = None"
    by (simp add: WEATHER_PHENOMENA_def asc_def)
  have h2: "map_of WEATHER_PHENOMENA (take 2 (asc ''ZZZZ'')) = None"
    by (simp add: WEATHER_PHENOMENA_def asc_def)
  have "wx_loop [] (asc ''ZZZZ'') = [] @ [asc ''ZZZZ'']"
    by (rule wx_loop_Break [OF ne wx_iter_fallback [OF ne h3 h2]])
  with ne a m b show ?thesis by (simp add: parse_weather_def)
qed

text \<open>
  C6. When a pass of the tokenizing loop meets a non-empty remainder whose first three and
  first two characters are both no keys of \<open>WEATHER_PHENOMENA\<close>, the whole remainder is
  appended as one literal token and the loop ends there; and \<open>parse_weather("ZZZZ")\<close> is
  \<open>"ZZZZ"\<close>.
\<close>

theorem wx_loop_literal_fallback:
  "(remaining \<noteq> [] \<and>
    map_of WEATHER_PHENOMENA (take 3 remaining) = None \<and>
    map_of WEATHER_PHENOMENA (take 2 remaining) = None \<longrightarrow>
      wx_iter phenomena_cn remaining = Break (phenomena_cn @ [remaining]) \<and>
      wx_loop phenomena_cn remaining = phenomena_cn @ [remaining]) \<and>
   parse_weather (asc ''ZZZZ'') = asc ''ZZZZ''"
proof -
  have "wx_iter phenomena_cn remaining = Break (phenomena_cn @ [remaining]) \<and>
        wx_loop phenomena_cn remaining = phenomena_cn @ [remaining]"
    if ne: "remaining \<noteq> []"
      and h3: "map_of WEATHER_PHENOMENA (take 3 remaining) = None"
      and h2: "map_of WEATHER_PHENOMENA (take 2 remaining) = None"
  proof -
    have i: "wx_iter phenomena_cn remaining = Break (phenomena_cn @ [remaining])"
      by (rule wx_iter_fallback [OF ne h3 h2])
    from i wx_loop_Break [OF ne i] show ?thesis by simp
  qed
  with parse_weather_ZZZZ show ?thesis by blast
qed

theorem wx_loop_literal_fallback_witness:
  "asc ''ZZZZ'' \<noteq> [] \<and>
   map_of WEATHER_PHENOMENA (take 3 (asc ''ZZZZ'')) = None \<and>
   map_of WEATHER_PHENOMENA (take 2 (asc ''ZZZZ'')) = None \<and>
   wx_iter [] (asc ''ZZZZ'') = Break [asc ''ZZZZ''] \<and>
   wx_loop [] (asc ''ZZZZ'') = [asc ''ZZZZ'']"
proof -
  have ne: "asc ''ZZZZ'' \<noteq> []" by (simp add: asc_def)
  have h3: "map_of WEATHER_PHENOMENA (take 3 (asc ''ZZZZ'')) = None"
    by (simp add: WEATHER_PHENOMENA_def asc_def)
  have h2: "map_of WEATHER_PHENOMENA (take 2 (asc ''ZZZZ'')) = None"
    by (simp add: WEATHER_PHENOMENA_def asc_def)
  from ne h3 h2 wx_loop_literal_fallback [of "asc ''ZZZZ''" "[]"] show ?thesis by simp
qed

subsection \<open>Termination of the tokenizing loop\<close>

text \<open>
  C10. The tokenizing loop of \<open>parse_weather\<close> ends for every input: a pass through its body
  on a non-empty remainder either goes on with a remainder at least two characters shorter
  (a table match) or appends the remainder as a literal token and leaves the loop. So the
  loop ends within \<open>len(remaining) // 2 + 1\<close> passes, with the result of \<open>wx_loop\<close>.
\<close>

theorem wx_loop_terminates:
  "wx_loop_fuel (length remaining div 2 + 1) phenomena_cn remaining
     = Some (wx_loop phenomena_cn remaining) \<and>
   (remaining \<noteq> [] \<longrightarrow>
     (case wx_iter phenomena_cn remaining of
        Continue p r \<Rightarrow> length r + 2 \<le> length remaining
      | Break p \<Rightarrow> p = phenomena_cn @ [remaining]))"
proof -
  have "wx_loop_fuel (length remaining div 2 + 1) phenomena_cn remaining
          = Some (wx_loop phenomena_cn remaining)"
    by (rule wx_loop_fuel_enough) simp
  moreover have "case wx_iter phenomena_cn remaining of
        Continue p r \<Rightarrow> length r + 2 \<le> length remaining
      | Break p \<Rightarrow> p = phenomena_cn @ [remaining]" if "remaining \<noteq> []"
    using that wx_iter_Continue_length [of phenomena_cn remaining]
      wx_iter_Break_token [of phenomena_cn remaining]
    by (cases "wx_iter phenomena_cn remaining") auto
  ultimately show ?thesis by blast
qed

theorem wx_loop_terminates_witness:
  "asc ''RASN'' \<noteq> [] \<and>
   wx_iter [] (asc ''RASN'') = Continue [[0x96E8]] (asc ''SN'') \<and>
   length (asc ''SN'') + 2 \<le> length (asc ''RASN'') \<and>
   wx_loop_fuel (length (asc ''RASN'') div 2 + 1) [] (asc ''RASN'')
     = Some (wx_loop [] (asc ''RASN''))"
proof -
  have ne: "asc ''RASN'' \<noteq> []" by (simp add: asc_def)
  have i: "wx_iter [] (asc ''RASN'') = Continue [[0x96E8]] (asc ''SN'')"
    by (simp add: wx_iter_def WEATHER_PHENOMENA_def asc_def Let_def)
  from ne i wx_loop_terminates [of "asc ''RASN''" "[]"] show ?thesis by simp
qed

section \<open>Evaluating numbers\<close>

lemma bit_length_0: "bit_length 0 = 0"
  by (simp add: bit_length.simps)

lemma bit_length_pos: "n \<noteq> 0 \<Longrightarrow> bit_length n = Suc (bit_length (n div 2))"
  by (subst bit_length.simps) simp

lemma dec_nat_digit: "n < 10 \<Longrightarrow> dec_nat n = [48 + n]"
  by (subst dec_nat.simps) simp

lemma dec_nat_more: "\<not> n < 10 \<Longrightarrow> dec_nat n = dec_nat (n div 10) @ [48 + n mod 10]"
  by (subst dec_nat.simps) simp

lemmas num_eval = bit_length_0 bit_length_pos dec_nat_digit dec_nat_more

section \<open>Properties of \<open>parse_clouds\<close>\<close>

subsection \<open>The layer \<open>BKN\<close> at \<open>050\<close>\<close>

lemma float_of_int_50: "float_of_int 50 = Inr (Finite False (50 * 2 ^ 47) (- 47))"
  by (simp add: float_of_int_def nearest_double_def round_half_even_def Let_def num_eval)

lemma float_mul_50: "float_mul (Finite False (50 * 2 ^ 47) (- 47)) float_0_3048 = Finite False 8579357290140795 (- 49)"
  by (simp add: float_mul_def float_0_3048_def nearest_double_def round_half_even_def Let_def num_eval)

lemma format_15_24: "format_fixed 0 (Finite False 8579357290140795 (- 49)) = asc ''15''"
  by (simp add: format_fixed_def round_half_even_def Let_def num_eval asc_def)

lemma int_of_val_050: "int_of_val rt (PStr (asc ''050'')) = Inr 50"
  by (simp add: int_of_val_def ascii_digit_def asc_def)

lemma height_str_050:
  "height_str rt (PStr (asc ''050'')) = Inr (cloud_base_label @ asc ''50ft (15m)'')"
proof -
  have t: "truthy (PStr (asc ''050'')) \<and> PStr (asc ''050'') \<noteq> PStr (asc ''N/A'')"
    by (simp add: truthy_def asc_def)
  have s: "str_int 50 = asc ''50''"
    by (simp add: str_int_def num_eval asc_def)
  show ?thesis
    unfolding height_str_def
    by (simp only: t if_True int_of_val_050 sum.case float_of_int_50 float_mul_50 format_15_24 s)
       (simp add: asc_def)
qed

lemma cloud_layer_BKN_050:
  "cloud_layer rt (PDict [(asc ''cover'', PStr (asc ''BKN'')), (asc ''base'', PStr (asc ''050''))])
     = Inr ([0x591A, 0x4E91] @ asc ''(5-7/8)'' @ cloud_base_label @ asc ''50ft (15m)'')"
proof -
  let ?kvs = "[(asc ''cover'', PStr (asc ''BKN'')), (asc ''base'', PStr (asc ''050''))]"
  have c: "dict_get ?kvs (asc ''cover'') (PStr []) = PStr (asc ''BKN'')"
    by (simp add: dict_get_def)
  have b: "dict_get ?kvs (asc ''base'') (PStr []) = PStr (asc ''050'')"
    by (simp add: dict_get_def asc_def)
  have t: "dict_get ?kvs (asc ''cloudType'') (PStr []) = PStr []"
    by (simp add: dict_get_def asc_def)
  have cc: "lookup_val CLOUD_COVER (PStr (asc ''BKN'')) = Some ([0x591A, 0x4E91] @ asc ''(5-7/8)'')"
    by (simp add: lookup_val_def CLOUD_COVER_def asc_def)
  have ty: "type_str (PStr []) (PStr (asc ''BKN'')) = Inr []"
    by (simp add: type_str_def hashable_def lookup_val_def CLOUD_TYPES_def asc_def)
  have h: "hashable (PStr (asc ''BKN''))" by (simp add: hashable_def)
  show ?thesis
    by (simp add: cloud_layer_def Let_def c b t cc ty h height_str_050 str_val_def)
qed

text \<open>
  C2. For the layers \<open>[{cover: "BKN", base: "050"}]\<close> the result is claimed to hold the
  translation of \<open>BKN\<close> and the height clause \<open>5000ft (1524m)\<close>: the base, in hundreds of
  feet, times 100, and that in meters. The code reads the base with \<open>int\<close> and writes it
  as feet without the factor 100, and \<open>50 * 0.3048 = 15.24\<close> as meters with no decimals:
  the clause is \<open>50ft (15m)\<close>, after the translation of \<open>BKN\<close> and the cloud-base label, and
  \<open>5000ft (1524m)\<close> does not occur in the result.
\<close>

theorem parse_clouds_BKN_050:
  "parse_clouds rt (PList [PDict [(asc ''cover'', PStr (asc ''BKN'')),
                                  (asc ''base'', PStr (asc ''050''))]])
     = Inr ([0x591A, 0x4E91] @ asc ''(5-7/8)'' @ cloud_base_label @ asc ''50ft (15m)'') \<and>
   \<not> contains ([0x591A, 0x4E91] @ asc ''(5-7/8)'' @ cloud_base_label @ asc ''50ft (15m)'')
        (asc ''5000ft (1524m)'')"
proof -
  have a: "parse_clouds rt (PList [PDict [(asc ''cover'', PStr (asc ''BKN'')),
                                  (asc ''base'', PStr (asc ''050''))]])
     = Inr ([0x591A, 0x4E91] @ asc ''(5-7/8)'' @ cloud_base_label @ asc ''50ft (15m)'')"
    by (simp add: parse_clouds_def truthy_def iterate_def cloud_layer_BKN_050)
  have b: "\<not> contains ([0x591A, 0x4E91] @ asc ''(5-7/8)'' @ cloud_base_label @ asc ''50ft (15m)'')
        (asc ''5000ft (1524m)'')"
    by (simp add: cloud_base_label_def asc_def)
  from a b show ?thesis by simp
qed

section \<open>Properties of \<open>parse_metar\<close>\<close>

subsection \<open>Exceptions stay inside\<close>

lemma is_Exception_all: "is_Exception c"
  by (cases c) simp_all

text \<open>
  C8. For every input, \<open>parse_metar\<close> returns a string and no exception leaves it: an
  exception raised anywhere in the \<open>try\<close> block is caught by the handler and turned into
  the failure text (\<open>failure_label\<close>) followed by \<open>str(e)\<close>.
\<close>

theorem parse_metar_never_raises:
  "(\<exists>report. parse_metar rt metar_data = Inr report) \<and>
   (\<forall>e. parse_metar_try rt metar_data = Inl e \<longrightarrow>
        parse_metar rt metar_data = Inr (failure_label @ exn_str rt e))"
  by (cases "parse_metar_try rt metar_data") (simp_all add: parse_metar_def is_Exception_all)

text \<open>A record whose pressure is a string that is not a number: formatting it raises.\<close>

lemma NA_neq: "PStr (asc ''abc'') \<noteq> NA" "PStr [] \<noteq> NA" "NA \<noteq> PStr (asc ''VRB'')"
  by (simp_all add: NA_def asc_def)

lemma try_altim_abc:
  "parse_metar_try rt (PDict [(asc ''altim'', PStr (asc ''abc''))])
     = Inl (Raised ValueError FormatSpec (PStr (asc ''abc'')))"
proof -
  let ?d = "[(asc ''altim'', PStr (asc ''abc''))]"
  have a: "dict_get ?d (asc ''altim'') NA = PStr (asc ''abc'')"
    by (simp add: dict_get_def)
  have r: "dict_get ?d (asc ''rawOb'') (PStr []) = PStr []"
    by (simp add: dict_get_def asc_def)
  have w: "dict_get ?d (asc ''wxString'') (PStr []) = PStr []"
    by (simp add: dict_get_def asc_def)
  have c: "dict_get ?d (asc ''clouds'') (PList []) = PList []"
    by (simp add: dict_get_def asc_def)
  have al: "altim_str rt ?d = Inl (Raised ValueError FormatSpec (PStr (asc ''abc'')))"
    by (simp add: altim_str_def Let_def a r NA_neq format_2f_def)
  have wx: "wx ?d = Inr []"
    by (simp add: wx_def Let_def w truthy_def)
  have cl: "parse_clouds rt (PList []) = Inr no_clouds"
    by (simp add: parse_clouds_def truthy_def)
  show ?thesis
    by (simp add: parse_metar_try_def report_lines_def Let_def wx c cl al)
qed

theorem parse_metar_never_raises_witness:
  "parse_metar_try example_runtime (PDict [(asc ''altim'', PStr (asc ''abc''))])
     = Inl (Raised ValueError FormatSpec (PStr (asc ''abc''))) \<and>
   parse_metar example_runtime (PDict [(asc ''altim'', PStr (asc ''abc''))])
     = Inr (failure_label @ asc ''error'')"
proof -
  have e: "exn_str example_runtime (Raised ValueError FormatSpec (PStr (asc ''abc''))) = asc ''error''"
    by (simp add: example_runtime_def)
  from try_altim_abc [of example_runtime]
    parse_metar_never_raises [of example_runtime "PDict [(asc ''altim'', PStr (asc ''abc''))]"] e
  show ?thesis by simp
qed

subsection \<open>A record with the station only\<close>

lemma dict_get_absent: "k \<notin> set (map fst d) \<Longrightarrow> dict_get d k dflt = dflt"
  by (simp add: dict_get_def map_of_eq_None_iff [THEN iffD2])

lemma parse_clouds_absent: "parse_clouds rt (PList []) = Inr no_clouds"
  by (simp add: parse_clouds_def truthy_def)

lemma report_lines_station_only:
  assumes "set (map fst d) \<subseteq> {asc ''name'', asc ''icaoId''}"
  shows "report_lines rt d =
    Inr [station_label @ str_val rt (dict_get d (asc ''name'') NA) @ asc '' ('' @
           str_val rt (dict_get d (asc ''icaoId'') NA) @ asc '')'',
         time_label @ asc ''N/A'',
         wind_label @ wind_none,
         vis_label @ asc ''N/A'',
         clouds_label @ no_clouds]"
proof -
  have k: "dict_get d key dflt = dflt" if "key \<noteq> asc ''name''" "key \<noteq> asc ''icaoId''" for key dflt
    using assms that by (intro dict_get_absent) auto
  have g:
    "dict_get d (asc ''rawOb'') = (\<lambda>x. x)"
    "dict_get d (asc ''reportTime'') = (\<lambda>x. x)"
    "dict_get d (asc ''wdir'') = (\<lambda>x. x)"
    "dict_get d (asc ''wspd'') = (\<lambda>x. x)"
    "dict_get d (asc ''wgst'') = (\<lambda>x. x)"
    "dict_get d (asc ''visib'') = (\<lambda>x. x)"
    "dict_get d (asc ''wxString'') = (\<lambda>x. x)"
    "dict_get d (asc ''clouds'') = (\<lambda>x. x)"
    "dict_get d (asc ''temp'') = (\<lambda>x. x)"
    "dict_get d (asc ''dewp'') = (\<lambda>x. x)"
    "dict_get d (asc ''altim'') = (\<lambda>x. x)"
    "dict_get d (asc ''fltCat'') = (\<lambda>x. x)"
    by (rule ext, rule k, simp add: asc_def, simp add: asc_def)+
  have t: "report_time rt d = NA" unfolding report_time_def g by simp
  have w: "wind rt d = wind_none" unfolding wind_def g by (simp add: NA_neq)
  have v: "vis rt d = asc ''N/A''" unfolding vis_def g by simp
  have x: "wx d = Inr []" unfolding wx_def g by (simp add: truthy_def)
  have a: "altim_str rt d = Inr (asc ''N/A'')" unfolding altim_str_def g by simp
  have f: "flt_cat_lines d = Inr []" unfolding flt_cat_lines_def g by (simp add: truthy_def)
  have n: "str_val rt NA = asc ''N/A''" by (simp add: str_val_def NA_def)
  show ?thesis
    unfolding report_lines_def t w v x a f g
    by (simp add: parse_clouds_absent truthy_def n)
qed

text \<open>
  C3, as amended. For a record whose only keys are the station name and the station code,
  \<open>parse_metar\<close> returns five lines: the station line, the time line with \<open>N/A\<close>, the wind
  line with the no-wind text, the visibility line with \<open>N/A\<close>, and the cloud line with
  the no-clouds text. The lines of the raw text, the weather, the temperature, the dew
  point, the pressure and the flight category are left out.
\<close>

theorem parse_metar_station_only:
  "set (map fst d) \<subseteq> {asc ''name'', asc ''icaoId''} \<Longrightarrow>
     parse_metar rt (PDict d) =
       Inr (join [10]
         [station_label @ str_val rt (dict_get d (asc ''name'') NA) @ asc '' ('' @
            str_val rt (dict_get d (asc ''icaoId'') NA) @ asc '')'',
          time_label @ asc ''N/A'',
          wind_label @ wind_none,
          vis_label @ asc ''N/A'',
          clouds_label @ no_clouds])"
  by (simp only: parse_metar_def parse_metar_try_def pyval.case sum.case
        report_lines_station_only [of d rt])

lemma station_only_example:
  "set (map fst [(asc ''name'', PStr (asc ''Pudong'')), (asc ''icaoId'', PStr (asc ''ZSPD''))])
     \<subseteq> {asc ''name'', asc ''icaoId''}"
  by simp

lemma station_only_example_get:
  "dict_get [(asc ''name'', PStr (asc ''Pudong'')), (asc ''icaoId'', PStr (asc ''ZSPD''))]
     (asc ''name'') NA = PStr (asc ''Pudong'')"
  "dict_get [(asc ''name'', PStr (asc ''Pudong'')), (asc ''icaoId'', PStr (asc ''ZSPD''))]
     (asc ''icaoId'') NA = PStr (asc ''ZSPD'')"
  by (simp_all add: dict_get_def asc_def)

theorem parse_metar_station_only_witness:
  "set (map fst [(asc ''name'', PStr (asc ''Pudong'')), (asc ''icaoId'', PStr (asc ''ZSPD''))])
     \<subseteq> {asc ''name'', asc ''icaoId''} \<and>
   parse_metar example_runtime
     (PDict [(asc ''name'', PStr (asc ''Pudong'')), (asc ''icaoId'', PStr (asc ''ZSPD''))]) =
       Inr (join [10]
         [station_label @ asc ''Pudong (ZSPD)'',
          time_label @ asc ''N/A'',
          wind_label @ wind_none,
          vis_label @ asc ''N/A'',
          clouds_label @ no_clouds])"
proof -
  have s: "str_val example_runtime (PStr (asc ''Pudong'')) @ asc '' ('' @
           str_val example_runtime (PStr (asc ''ZSPD'')) @ asc '')'' = asc ''Pudong (ZSPD)''"
    by (simp add: str_val_def asc_def)
  from station_only_example
    parse_metar_station_only [OF station_only_example, of example_runtime]
  show ?thesis by (simp only: station_only_example_get s)
qed

text \<open>
  C3 as stated fails: for the record \<open>{name: "Pudong", icaoId: "ZSPD"}\<close> the result is not
  the station line and the cloud line alone.
\<close>

theorem parse_metar_station_only_counterexample:
  "parse_metar example_runtime
     (PDict [(asc ''name'', PStr (asc ''Pudong'')), (asc ''icaoId'', PStr (asc ''ZSPD''))])
   \<noteq> Inr (join [10] [station_label @ asc ''Pudong (ZSPD)'', clouds_label @ no_clouds])"
proof -
  let ?d = "[(asc ''name'', PStr (asc ''Pudong'')), (asc ''icaoId'', PStr (asc ''ZSPD''))]"
  have s: "str_val example_runtime (PStr (asc ''Pudong'')) @ asc '' ('' @
           str_val example_runtime (PStr (asc ''ZSPD'')) @ asc '')'' = asc ''Pudong (ZSPD)''"
    by (simp add: str_val_def asc_def)
  have l: "report_lines example_runtime ?d =
    Inr [station_label @ asc ''Pudong (ZSPD)'', time_label @ asc ''N/A'',
         wind_label @ wind_none, vis_label @ asc ''N/A'', clouds_label @ no_clouds]"
    using report_lines_station_only [OF station_only_example, of example_runtime]
    by (simp only: station_only_example_get s)
  have n: "join [10] [station_label @ asc ''Pudong (ZSPD)'', time_label @ asc ''N/A'',
         wind_label @ wind_none, vis_label @ asc ''N/A'', clouds_label @ no_clouds]
      \<noteq> join [10] [station_label @ asc ''Pudong (ZSPD)'', clouds_label @ no_clouds]"
    by (simp add: station_label_def time_label_def clouds_label_def asc_def)
  show ?thesis
    by (simp only: parse_metar_def parse_metar_try_def pyval.case sum.case l)
       (use n in simp)
qed


subsection \<open>Wind\<close>

lemma wind_line_in_report:
  "report_lines rt d = Inr lines \<Longrightarrow> wind_label @ wind rt d \<in> set lines"
  by (auto simp: report_lines_def Let_def split: sum.splits)

text \<open>
  C4, as amended. For a record whose wind direction and speed are present, the direction
  not \<open>"VRB"\<close> and neither of them the text \<open>"N/A"\<close>, the wind text is
  direction, degree sign, slash, speed and \<open>kt\<close>, followed by the gust clause (gust label, gust, \<open>kt\<close>) exactly when
  a gust value is present and true as a condition (not \<open>0\<close>, empty or \<open>null\<close>); a record
  without the gust field has no gust clause. The wind text is a line of every report.
\<close>

theorem wind_present:
  "map_of d (asc ''wdir'') = Some windDir \<and> map_of d (asc ''wspd'') = Some windSpeed \<and>
   windDir \<noteq> PStr (asc ''VRB'') \<and> windDir \<noteq> NA \<and> windSpeed \<noteq> NA \<longrightarrow>
     wind rt d =
       str_val rt windDir @ degree_slash @ str_val rt windSpeed @ asc ''kt'' @
       (case map_of d (asc ''wgst'') of
          Some gust \<Rightarrow> if truthy gust then gust_label @ str_val rt gust @ asc ''kt'' else []
        | None \<Rightarrow> []) \<and>
     (\<forall>lines. report_lines rt d = Inr lines \<longrightarrow> wind_label @ wind rt d \<in> set lines)"
proof (intro impI conjI allI)
  assume h: "map_of d (asc ''wdir'') = Some windDir \<and> map_of d (asc ''wspd'') = Some windSpeed \<and>
   windDir \<noteq> PStr (asc ''VRB'') \<and> windDir \<noteq> NA \<and> windSpeed \<noteq> NA"
  have e: "truthy (PStr []) = False" by (simp add: truthy_def)
  from h show "wind rt d =
       str_val rt windDir @ degree_slash @ str_val rt windSpeed @ asc ''kt'' @
       (case map_of d (asc ''wgst'') of
          Some gust \<Rightarrow> if truthy gust then gust_label @ str_val rt gust @ asc ''kt'' else []
        | None \<Rightarrow> [])"
    by (simp add: wind_def dict_get_def Let_def e split: option.splits)
next
  fix lines
  assume "report_lines rt d = Inr lines"
  then show "wind_label @ wind rt d \<in> set lines" by (rule wind_line_in_report)
qed

lemma str_int_270: "str_int 270 = asc ''270''"
  by (simp add: str_int_def num_eval asc_def)

lemma str_int_10: "str_int 10 = asc ''10''"
  by (simp add: str_int_def num_eval asc_def)

lemma str_int_25: "str_int 25 = asc ''25''"
  by (simp add: str_int_def num_eval asc_def)

theorem wind_present_witness:
  "map_of [(asc ''wdir'', PInt 270), (asc ''wspd'', PInt 10), (asc ''wgst'', PInt 25)] (asc ''wdir'')
     = Some (PInt 270) \<and>
   map_of [(asc ''wdir'', PInt 270), (asc ''wspd'', PInt 10), (asc ''wgst'', PInt 25)] (asc ''wspd'')
     = Some (PInt 10) \<and>
   PInt 270 \<noteq> PStr (asc ''VRB'') \<and> PInt 270 \<noteq> NA \<and> PInt 10 \<noteq> NA \<and>
   wind example_runtime [(asc ''wdir'', PInt 270), (asc ''wspd'', PInt 10), (asc ''wgst'', PInt 25)]
     = asc ''270'' @ degree_slash @ asc ''10kt'' @ gust_label @ asc ''25kt''"
proof -
  let ?d = "[(asc ''wdir'', PInt 270), (asc ''wspd'', PInt 10), (asc ''wgst'', PInt 25)]"
  have a: "map_of ?d (asc ''wdir'') = Some (PInt 270)" by simp
  have b: "map_of ?d (asc ''wspd'') = Some (PInt 10)" by (simp add: asc_def)
  have c: "map_of ?d (asc ''wgst'') = Some (PInt 25)" by (simp add: asc_def)
  have n: "PInt 270 \<noteq> PStr (asc ''VRB'') \<and> PInt 270 \<noteq> NA \<and> PInt 10 \<noteq> NA"
    by (simp add: NA_def)
  have t: "truthy (PInt 25)" by (simp add: truthy_def)
  have s: "str_val example_runtime (PInt 270) = asc ''270''"
    "str_val example_runtime (PInt 10) = asc ''10''"
    "str_val example_runtime (PInt 25) = asc ''25''"
    by (simp_all add: str_val_def str_int_270 str_int_10 str_int_25)
  from wind_present [of ?d "PInt 270" "PInt 10" example_runtime] a b n
  have "wind example_runtime ?d =
       str_val example_runtime (PInt 270) @ degree_slash @ str_val example_runtime (PInt 10) @ asc ''kt'' @
       (case map_of ?d (asc ''wgst'') of
          Some gust \<Rightarrow> if truthy gust then gust_label @ str_val example_runtime gust @ asc ''kt'' else []
        | None \<Rightarrow> [])"
    by blast
  then have "wind example_runtime ?d
     = asc ''270'' @ degree_slash @ asc ''10kt'' @ gust_label @ asc ''25kt''"
    by (simp only: c option.case t if_True s) (simp add: asc_def)
  with a b n show ?thesis by blast
qed

text \<open>
  C4 as stated fails: the record \<open>{wdir: 270, wspd: 10, wgst: 0}\<close> has a gust value and
  its wind text is \<open>270\<close>, degree sign, \<open>/10kt\<close>, with no gust clause.
\<close>

theorem wind_gust_zero_counterexample:
  "map_of [(asc ''wdir'', PInt 270), (asc ''wspd'', PInt 10), (asc ''wgst'', PInt 0)] (asc ''wgst'')
     = Some (PInt 0) \<and>
   wind example_runtime [(asc ''wdir'', PInt 270), (asc ''wspd'', PInt 10), (asc ''wgst'', PInt 0)]
     = asc ''270'' @ degree_slash @ asc ''10kt'' \<and>
   \<not> contains (wind example_runtime
        [(asc ''wdir'', PInt 270), (asc ''wspd'', PInt 10), (asc ''wgst'', PInt 0)]) gust_label"
proof -
  let ?d = "[(asc ''wdir'', PInt 270), (asc ''wspd'', PInt 10), (asc ''wgst'', PInt 0)]"
  have a: "dict_get ?d (asc ''wdir'') NA = PInt 270" by (simp add: dict_get_def)
  have b: "dict_get ?d (asc ''wspd'') NA = PInt 10" by (simp add: dict_get_def asc_def)
  have c: "dict_get ?d (asc ''wgst'') (PStr []) = PInt 0" by (simp add: dict_get_def asc_def)
  have g: "map_of ?d (asc ''wgst'') = Some (PInt 0)" by (simp add: asc_def)
  have n: "PInt 270 \<noteq> PStr (asc ''VRB'') \<and> PInt 270 \<noteq> NA \<and> PInt 10 \<noteq> NA"
    by (simp add: NA_def)
  have t: "\<not> truthy (PInt 0)" by (simp add: truthy_def)
  have s: "str_val example_runtime (PInt 270) = asc ''270''"
    "str_val example_runtime (PInt 10) = asc ''10''"
    by (simp_all add: str_val_def str_int_270 str_int_10)
  have w: "wind example_runtime ?d = asc ''270'' @ degree_slash @ asc ''10kt''"
    unfolding wind_def Let_def a b c using n t by (simp add: s asc_def)
  have k: "\<not> contains (asc ''270'' @ degree_slash @ asc ''10kt'') gust_label"
    by (simp add: degree_slash_def gust_label_def asc_def)
  from g w k show ?thesis by simp
qed

subsection \<open>Pressure\<close>

lemma int_truediv_2992: "int_truediv 2992 100 = Inr float_29_92"
  by (simp add: int_truediv_def nearest_double_def round_half_even_def Let_def num_eval
        float_29_92_def)

lemma format_29_92: "format_fixed 2 float_29_92 = asc ''29.92''"
  by (simp add: float_29_92_def format_fixed_def round_half_even_def Let_def num_eval asc_def)

lemma int_of_val_2992: "int_of_val rt (PStr (asc ''2992'')) = Inr 2992"
  by (simp add: int_of_val_def ascii_digit_def asc_def)

lemma int_of_val_0000: "int_of_val rt (PStr (asc ''0000'')) = Inr 0"
  by (simp add: int_of_val_def ascii_digit_def asc_def)

lemma format_zero: "format_fixed 2 (Finite False 0 0) = asc ''0.00''"
  by (simp add: format_fixed_def Let_def num_eval asc_def)

lemma altim_str_first_match:
  assumes a: "map_of d (asc ''altim'') = Some (PFloat float_29_92)"
    and r: "map_of d (asc ''rawOb'') = Some (PStr raw)"
    and m: "us_altim_search rt raw = Some (asc ''2992'')"
  shows "altim_str rt d = Inr (asc ''29.92 inHg A29.92'')"
proof -
  have ga: "dict_get d (asc ''altim'') NA = PFloat float_29_92"
    using a by (simp add: dict_get_def)
  have gr: "dict_get d (asc ''rawOb'') (PStr []) = PStr raw"
    using r by (simp add: dict_get_def)
  have n: "PFloat float_29_92 \<noteq> NA" by (simp add: NA_def)
  have f: "format_2f (PFloat float_29_92) = Inr (asc ''29.92'')"
    by (simp add: format_2f_def format_29_92)
  have j: "asc ''29.92'' @ asc '' inHg A'' @ asc ''29.92'' = asc ''29.92 inHg A29.92''"
    by (simp add: asc_def)
  show ?thesis
    unfolding altim_str_def Let_def ga gr
    by (simp only: n not_False_eq_True if_True pyval.case m option.case int_of_val_2992
          sum.case int_truediv_2992 format_29_92 f j)
qed

lemma us_altim_search_hit:
  "altim_pattern_at rt s \<Longrightarrow> us_altim_search rt s = Some (take 4 (tl s))"
  by (cases s) (simp_all add: altim_pattern_at_def)

lemma us_altim_search_miss:
  "\<not> altim_pattern_at rt (c # t) \<Longrightarrow> us_altim_search rt (c # t) = us_altim_search rt t"
  by (auto simp: altim_pattern_at_def)

lemma us_altim_search_skip:
  "(\<forall>i < length pre. \<not> altim_pattern_at rt (drop i (pre @ rest))) \<Longrightarrow>
     us_altim_search rt (pre @ rest) = us_altim_search rt rest"
proof (induction pre)
  case Nil
  then show ?case by simp
next
  case (Cons c cs)
  from Cons.prems have "\<not> altim_pattern_at rt (drop 0 ((c # cs) @ rest))"
    by blast
  then have "\<not> altim_pattern_at rt (c # (cs @ rest))"
    by simp
  then have "us_altim_search rt (c # (cs @ rest)) = us_altim_search rt (cs @ rest)"
    by (rule us_altim_search_miss)
  then have here: "us_altim_search rt ((c # cs) @ rest) = us_altim_search rt (cs @ rest)"
    by simp
  have "\<forall>i < length cs. \<not> altim_pattern_at rt (drop i (cs @ rest))"
  proof (intro allI impI)
    fix i
    assume "i < length cs"
    then have "Suc i < length (c # cs)" by simp
    with Cons.prems have "\<not> altim_pattern_at rt (drop (Suc i) ((c # cs) @ rest))"
      by blast
    then show "\<not> altim_pattern_at rt (drop i (cs @ rest))" by simp
  qed
  then have "us_altim_search rt (cs @ rest) = us_altim_search rt rest"
    by (rule Cons.IH)
  with here show ?case by simp
qed

lemma altim_pattern_at_A2992: "altim_pattern_at rt (asc ''A2992'' @ post)"
  by (simp add: altim_pattern_at_def is_digit_def ascii_digit_def asc_def)

lemma us_altim_search_first_A2992:
  assumes "\<forall>i < length pre. \<not> altim_pattern_at rt (drop i (pre @ asc ''A2992'' @ post))"
  shows "us_altim_search rt (pre @ asc ''A2992'' @ post) = Some (asc ''2992'')"
proof -
  have "us_altim_search rt (pre @ asc ''A2992'' @ post)
          = us_altim_search rt (asc ''A2992'' @ post)"
    using assms by (rule us_altim_search_skip)
  also have "\<dots> = Some (take 4 (tl (asc ''A2992'' @ post)))"
    by (rule us_altim_search_hit [OF altim_pattern_at_A2992])
  also have "take 4 (tl (asc ''A2992'' @ post)) = asc ''2992''"
    by (simp add: asc_def)
  finally show ?thesis .
qed

text \<open>
  C7, as amended. For the pressure \<open>29.92\<close> and a raw text in which the first \<open>A\<close> followed
  by four digits is \<open>A2992\<close> (the text is \<open>pre @ "A2992" @ post\<close> and the pattern
  \<open>A(\d{4})\<close> matches at no position inside \<open>pre\<close>), the pressure text is
  \<open>29.92 inHg A29.92\<close>: it holds \<open>29.92 inHg\<close> and \<open>A29.92\<close>, the four digits read as
  hundredths and written with two decimals.
\<close>

theorem altim_str_29_92:
  "map_of d (asc ''altim'') = Some (PFloat float_29_92) \<and>
   map_of d (asc ''rawOb'') = Some (PStr (pre @ asc ''A2992'' @ post)) \<and>
   (\<forall>i < length pre. \<not> altim_pattern_at rt (drop i (pre @ asc ''A2992'' @ post))) \<longrightarrow>
     altim_str rt d = Inr (asc ''29.92 inHg A29.92'') \<and>
     contains (asc ''29.92 inHg A29.92'') (asc ''29.92 inHg'') \<and>
     contains (asc ''29.92 inHg A29.92'') (asc ''A29.92'')"
proof -
  have c: "contains (asc ''29.92 inHg A29.92'') (asc ''29.92 inHg'') \<and>
     contains (asc ''29.92 inHg A29.92'') (asc ''A29.92'')"
    by (simp add: asc_def)
  have "altim_str rt d = Inr (asc ''29.92 inHg A29.92'')"
    if a: "map_of d (asc ''altim'') = Some (PFloat float_29_92)"
      and r: "map_of d (asc ''rawOb'') = Some (PStr (pre @ asc ''A2992'' @ post))"
      and f: "\<forall>i < length pre. \<not> altim_pattern_at rt (drop i (pre @ asc ''A2992'' @ post))"
    by (rule altim_str_first_match [OF a r us_altim_search_first_A2992 [OF f]])
  with c show ?thesis by blast
qed

text \<open>
  The raw text \<open>KATL A2992 A0000\<close>: the \<open>A\<close> of \<open>KATL\<close> is not followed by four digits, and
  a later group \<open>A0000\<close> follows the first one.
\<close>

lemma KATL_no_match:
  "\<forall>i < length (asc ''KATL '').
     \<not> altim_pattern_at example_runtime (drop i (asc ''KATL '' @ asc ''A2992'' @ asc '' A0000''))"
proof (intro allI impI)
  fix i
  assume "i < length (asc ''KATL '')"
  then have "i < 5" by (simp add: asc_def)
  then consider "i = 0" | "i = 1" | "i = 2" | "i = 3" | "i = 4" by linarith
  then show "\<not> altim_pattern_at example_runtime
               (drop i (asc ''KATL '' @ asc ''A2992'' @ asc '' A0000''))"
    by cases
       (simp_all add: altim_pattern_at_def is_digit_def ascii_digit_def example_runtime_def
          asc_def)
qed

theorem altim_str_29_92_witness:
  "altim_str example_runtime
     [(asc ''altim'', PFloat float_29_92), (asc ''rawOb'', PStr (asc ''KATL A2992 A0000''))]
     = Inr (asc ''29.92 inHg A29.92'')"
proof -
  let ?d = "[(asc ''altim'', PFloat float_29_92),
             (asc ''rawOb'', PStr (asc ''KATL '' @ asc ''A2992'' @ asc '' A0000''))]"
  have e: "asc ''KATL '' @ asc ''A2992'' @ asc '' A0000'' = asc ''KATL A2992 A0000''"
    by (simp add: asc_def)
  have a: "map_of ?d (asc ''altim'') = Some (PFloat float_29_92)" by simp
  have r: "map_of ?d (asc ''rawOb'')
             = Some (PStr (asc ''KATL '' @ asc ''A2992'' @ asc '' A0000''))"
    by (simp add: asc_def)
  from a r KATL_no_match
    altim_str_29_92 [of ?d "asc ''KATL ''" "asc '' A0000''" example_runtime]
  have "altim_str example_runtime ?d = Inr (asc ''29.92 inHg A29.92'')" by blast
  then show ?thesis by (simp only: e)
qed

text \<open>
  C7 as stated fails: the raw text \<open>A0000 A2992\<close> contains \<open>A2992\<close>, the search takes the
  first match \<open>A0000\<close>, and the pressure text \<open>29.92 inHg A0.00\<close> does not contain
  \<open>A29.92\<close>.
\<close>

theorem altim_str_earlier_match_counterexample:
  "contains (asc ''A0000 A2992'') (asc ''A2992'') \<and>
   altim_str example_runtime
     [(asc ''altim'', PFloat float_29_92), (asc ''rawOb'', PStr (asc ''A0000 A2992''))]
     = Inr (asc ''29.92 inHg A0.00'') \<and>
   \<not> contains (asc ''29.92 inHg A0.00'') (asc ''A29.92'')"
proof -
  let ?d = "[(asc ''altim'', PFloat float_29_92), (asc ''rawOb'', PStr (asc ''A0000 A2992''))]"
  have ga: "dict_get ?d (asc ''altim'') NA = PFloat float_29_92"
    by (simp add: dict_get_def)
  have gr: "dict_get ?d (asc ''rawOb'') (PStr []) = PStr (asc ''A0000 A2992'')"
    by (simp add: dict_get_def asc_def)
  have m: "us_altim_search example_runtime (asc ''A0000 A2992'') = Some (asc ''0000'')"
    by (simp add: is_digit_def ascii_digit_def example_runtime_def asc_def)
  have n: "PFloat float_29_92 \<noteq> NA" by (simp add: NA_def)
  have f: "format_2f (PFloat float_29_92) = Inr (asc ''29.92'')"
    by (simp add: format_2f_def format_29_92)
  have z: "int_truediv 0 100 = Inr (Finite False 0 0)"
    by (simp add: int_truediv_def)
  have j: "asc ''29.92'' @ asc '' inHg A'' @ asc ''0.00'' = asc ''29.92 inHg A0.00''"
    by (simp add: asc_def)
  have s: "altim_str example_runtime ?d = Inr (asc ''29.92 inHg A0.00'')"
    unfolding altim_str_def Let_def ga gr
    by (simp only: n not_False_eq_True if_True pyval.case m option.case int_of_val_0000
          sum.case z format_zero f j)
  have c1: "contains (asc ''A0000 A2992'') (asc ''A2992'')" by (simp add: asc_def)
  have c2: "\<not> contains (asc ''29.92 inHg A0.00'') (asc ''A29.92'')" by (simp add: asc_def)
  from c1 s c2 show ?thesis by simp
qed

end
